theory Spec2Isabelle
  imports Main
begin

section \<open>The DOM facilities the components rely on\<close>

text \<open>
  The three custom elements of \<^verbatim>\<open>acsd-components.js\<close> talk to the browser through a
  small set of DOM operations: the \<^verbatim>\<open>class\<close> attribute of an element (written as a
  string through \<^verbatim>\<open>className\<close>, and as a token set through \<^verbatim>\<open>classList\<close>), host
  attributes with their attribute-changed reactions, event listeners, one-shot timers,
  custom events and \<^verbatim>\<open>localStorage\<close>. Each is modelled as data in the state of the
  element (or of the page), and every source method becomes a function from state to state.
\<close>

subsection \<open>Class attribute and token list\<close>

text \<open>
  A \<^verbatim>\<open>class\<close> attribute is a string. \<^verbatim>\<open>classList\<close> reads it through the ordered set
  parser (split on ASCII whitespace, keep the first occurrence of each token) and writes it
  back through the ordered set serializer (tokens joined by one space).
\<close>

definition is_ascii_whitespace :: "char \<Rightarrow> bool" where
  "is_ascii_whitespace c =
     (c = CHR 0x09 \<or> c = CHR 0x0A \<or> c = CHR 0x0C \<or> c = CHR 0x0D \<or> c = CHR '' '')"

fun split_on_whitespace :: "string \<Rightarrow> string \<Rightarrow> string list" where
  "split_on_whitespace cur [] = (if cur = [] then [] else [cur])"
| "split_on_whitespace cur (c # cs) =
     (if is_ascii_whitespace c
      then (if cur = [] then split_on_whitespace [] cs else cur # split_on_whitespace [] cs)
      else split_on_whitespace (cur @ [c]) cs)"

fun ordered_set_append :: "'a list \<Rightarrow> 'a \<Rightarrow> 'a list" where
  "ordered_set_append ts t = (if t \<in> set ts then ts else ts @ [t])"

definition ordered_set_parser :: "string \<Rightarrow> string list" where
  "ordered_set_parser cls = foldl ordered_set_append [] (split_on_whitespace [] cls)"

fun ordered_set_serializer :: "string list \<Rightarrow> string" where
  "ordered_set_serializer [] = []"
| "ordered_set_serializer [t] = t"
| "ordered_set_serializer (t # u # ts) = t @ '' '' @ ordered_set_serializer (u # ts)"

definition classList_contains :: "string \<Rightarrow> string \<Rightarrow> bool" where
  "classList_contains cls tok = (tok \<in> set (ordered_set_parser cls))"

definition classList_add :: "string \<Rightarrow> string \<Rightarrow> string" where
  "classList_add cls tok =
     ordered_set_serializer (ordered_set_append (ordered_set_parser cls) tok)"

definition classList_remove :: "string \<Rightarrow> string \<Rightarrow> string" where
  "classList_remove cls tok =
     ordered_set_serializer (filter (\<lambda>t. t \<noteq> tok) (ordered_set_parser cls))"

text \<open>A token that \<^verbatim>\<open>classList\<close> accepts: not empty and free of whitespace.\<close>

definition valid_token :: "string \<Rightarrow> bool" where
  "valid_token t = (t \<noteq> [] \<and> (\<forall>c \<in> set t. \<not> is_ascii_whitespace c))"

subsection \<open>Custom events\<close>

record custom_event =
  ev_type :: string
  detail :: "(string \<times> string) list"
  bubbles :: bool
  composed :: bool

subsection \<open>The JavaScript default idiom\<close>

text \<open>
  \<^verbatim>\<open>newValue || 'primary'\<close>: an attribute value is \<^verbatim>\<open>null\<close> (absent) or a string, and
  both \<^verbatim>\<open>null\<close> and the empty string are falsy.
\<close>

definition or_default :: "string option \<Rightarrow> string \<Rightarrow> string" where
  "or_default newValue d =
     (case newValue of None \<Rightarrow> d | Some v \<Rightarrow> if v = [] then d else v)"

section \<open>FrmwrkBadge\<close>

text \<open>
  The badge keeps \<^verbatim>\<open>_variant\<close> and renders one \<^verbatim>\<open>span\<close> whose class is
  \<^verbatim>\<open>badge ${this._variant}\<close>. \<open>b_attrs\<close> are the host attributes.
\<close>

record badge =
  b_attrs :: "string \<rightharpoonup> string"
  b_variant :: string
  badge_class :: string

definition FrmwrkBadge__render :: "badge \<Rightarrow> badge" where
  "FrmwrkBadge__render s = s\<lparr>badge_class := ''badge '' @ b_variant s\<rparr>"

definition FrmwrkBadge_constructor :: badge where
  "FrmwrkBadge_constructor =
     FrmwrkBadge__render \<lparr>b_attrs = Map.empty, b_variant = ''primary'', badge_class = []\<rparr>"

definition FrmwrkBadge_observedAttributes :: "string list" where
  "FrmwrkBadge_observedAttributes = [''variant'']"

definition FrmwrkBadge__updateVariant :: "badge \<Rightarrow> badge" where
  "FrmwrkBadge__updateVariant s = s\<lparr>badge_class := ''badge '' @ b_variant s\<rparr>"

definition FrmwrkBadge_attributeChangedCallback ::
  "badge \<Rightarrow> string \<Rightarrow> string option \<Rightarrow> string option \<Rightarrow> badge" where
  "FrmwrkBadge_attributeChangedCallback s name oldValue newValue =
     (if name = ''variant'' \<and> oldValue \<noteq> newValue
      then FrmwrkBadge__updateVariant (s\<lparr>b_variant := or_default newValue ''primary''\<rparr>)
      else s)"

text \<open>
  \<^verbatim>\<open>setAttribute\<close> and \<^verbatim>\<open>removeAttribute\<close> of the host: the attribute is written, and for
  an observed attribute the browser calls \<^verbatim>\<open>attributeChangedCallback\<close> with the old and the
  new value before the call returns. Removing an attribute that is absent does nothing.
\<close>

definition badge_setAttribute :: "badge \<Rightarrow> string \<Rightarrow> string \<Rightarrow> badge" where
  "badge_setAttribute s name v =
     (let oldValue = b_attrs s name;
          s' = s\<lparr>b_attrs := (b_attrs s)(name \<mapsto> v)\<rparr>
      in if name \<in> set FrmwrkBadge_observedAttributes
         then FrmwrkBadge_attributeChangedCallback s' name oldValue (Some v)
         else s')"

definition badge_removeAttribute :: "badge \<Rightarrow> string \<Rightarrow> badge" where
  "badge_removeAttribute s name =
     (case b_attrs s name of
        None \<Rightarrow> s
      | Some oldValue \<Rightarrow>
          (let s' = s\<lparr>b_attrs := (b_attrs s)(name := None)\<rparr>
           in if name \<in> set FrmwrkBadge_observedAttributes
              then FrmwrkBadge_attributeChangedCallback s' name (Some oldValue) None
              else s'))"

section \<open>FrmwrkThemeToggle\<close>

text \<open>
  The theme is page-wide state: the class attribute of \<^verbatim>\<open>document.documentElement\<close>
  (the dark flag is the token \<^verbatim>\<open>theme-dark\<close> in it) and \<^verbatim>\<open>localStorage\<close>. An absent
  class attribute and an empty one are both the empty string here; \<^verbatim>\<open>classList\<close> does not
  tell them apart.
\<close>

record page =
  html_class :: string
  localStorage :: "string \<rightharpoonup> string"

definition dark_flag :: "page \<Rightarrow> bool" where
  "dark_flag p = classList_contains (html_class p) ''theme-dark''"

text \<open>
  Of a toggle instance the model keeps the click listeners on its button (every
  \<^verbatim>\<open>connectedCallback\<close> adds one closure \<^verbatim>\<open>() => this._toggleTheme()\<close>; the button is
  rendered once, in the constructor) and the events it has dispatched. The
  \<^verbatim>\<open>position\<close> attribute only drives inline style and is not tracked.
\<close>

record theme_toggle =
  button_listeners :: nat
  t_dispatched :: "custom_event list"

type_synonym toggle_world = "theme_toggle \<times> page"

definition FrmwrkThemeToggle_constructor :: theme_toggle where
  "FrmwrkThemeToggle_constructor = \<lparr>button_listeners = 0, t_dispatched = []\<rparr>"

definition FrmwrkThemeToggle__updateIcon :: "theme_toggle \<Rightarrow> string \<Rightarrow> theme_toggle" where
  \<comment> \<open>The body is only the comment "No icon to update anymore".\<close>
  "FrmwrkThemeToggle__updateIcon t theme = t"

definition FrmwrkThemeToggle__toggleTheme :: "toggle_world \<Rightarrow> toggle_world" where
  "FrmwrkThemeToggle__toggleTheme w =
     (case w of (t, p) \<Rightarrow>
        let currentTheme = (if classList_contains (html_class p) ''theme-dark''
                            then ''dark'' else ''light'');
            newTheme = (if currentTheme = ''dark'' then ''light'' else ''dark'');
            p1 = (if newTheme = ''dark''
                  then p\<lparr>html_class := classList_add (html_class p) ''theme-dark''\<rparr>
                  else p\<lparr>html_class := classList_remove (html_class p) ''theme-dark''\<rparr>);
            p2 = p1\<lparr>localStorage := (localStorage p1)(''theme'' \<mapsto> newTheme)\<rparr>;
            t1 = FrmwrkThemeToggle__updateIcon t newTheme;
            t2 = t1\<lparr>t_dispatched := t_dispatched t1 @
                   [\<lparr>ev_type = ''theme-changed'', detail = [(''theme'', newTheme)],
                     bubbles = True, composed = True\<rparr>]\<rparr>
        in (t2, p2))"

definition FrmwrkThemeToggle__loadSavedTheme :: "toggle_world \<Rightarrow> toggle_world" where
  "FrmwrkThemeToggle__loadSavedTheme w =
     (case w of (t, p) \<Rightarrow>
        let savedTheme = localStorage p ''theme''
        in if savedTheme = Some ''dark''
           then (FrmwrkThemeToggle__updateIcon t ''dark'',
                 p\<lparr>html_class := classList_add (html_class p) ''theme-dark''\<rparr>)
           else (FrmwrkThemeToggle__updateIcon t ''light'', p))"

definition FrmwrkThemeToggle_connectedCallback :: "toggle_world \<Rightarrow> toggle_world" where
  "FrmwrkThemeToggle_connectedCallback w =
     (case w of (t, p) \<Rightarrow>
        FrmwrkThemeToggle__loadSavedTheme (t\<lparr>button_listeners := Suc (button_listeners t)\<rparr>, p))"

definition FrmwrkThemeToggle_disconnectedCallback :: "toggle_world \<Rightarrow> toggle_world" where
  \<comment> \<open>\<^verbatim>\<open>removeEventListener('click', this._toggleTheme)\<close> names the method, which was never
      registered (the listeners are closures), so nothing is removed.\<close>
  "FrmwrkThemeToggle_disconnectedCallback w = w"

text \<open>A user activation of the button runs every click listener on it.\<close>

definition click_toggle_button :: "toggle_world \<Rightarrow> toggle_world" where
  "click_toggle_button w = (FrmwrkThemeToggle__toggleTheme ^^ button_listeners (fst w)) w"

text \<open>The function at the end of the script, run once when the script loads.\<close>

definition auto_initialize :: "page \<Rightarrow> page" where
  "auto_initialize p =
     (let savedTheme = localStorage p ''theme''
      in if savedTheme = Some ''dark''
         then p\<lparr>html_class := classList_add (html_class p) ''theme-dark''\<rparr>
         else p)"

text \<open>The stored preference mirrors the document flag.\<close>

definition theme_mirrors_flag :: "page \<Rightarrow> bool" where
  "theme_mirrors_flag p =
     (localStorage p ''theme'' = Some (if dark_flag p then ''dark'' else ''light''))"

section \<open>FrmwrkAlert\<close>

text \<open>
  The state of one alert: its host attributes, the three private fields, what the last
  \<^verbatim>\<open>_render\<close> put into the shadow root, the clock in milliseconds with the due times of
  the pending \<^verbatim>\<open>setTimeout\<close> closures, and the events dispatched so far.

  Of the shadow root the code only ever looks for two elements, with
  \<^verbatim>\<open>querySelector('.alert')\<close> and \<^verbatim>\<open>querySelector('.close-button')\<close>. The first is the
  \<^verbatim>\<open>div\<close> the template opens with \<^verbatim>\<open><div class="alert \<close>: it is the first element with
  a class and always carries the token \<^verbatim>\<open>alert\<close>. The state keeps its class attribute
  and its listeners. The second is the first element, in tree order, whose class carries
  the token \<^verbatim>\<open>close-button\<close>: the \<^verbatim>\<open>div\<close> itself when its class does, otherwise the
  first such element after it. The classes of the elements after the \<^verbatim>\<open>div\<close> do not
  change between two renders, so the state keeps that one element, \<open>other_close\<close>
  (\<open>None\<close> when there is none): its listeners in registration order, and whether it lies
  inside the \<^verbatim>\<open>div\<close>, to which its events then bubble. The text of the icon span is
  not tracked. Attribute names are the lower-case names the DOM stores.
\<close>

datatype listener = Click_dismiss | Keydown_dismiss

record element =
  el_listeners :: "listener list"
  in_alert :: bool

record alert =
  attrs :: "string \<rightharpoonup> string"
  variant_f :: string
  dismissible_f :: bool
  open_f :: bool
  alert_class :: string
  alert_listeners :: "listener list"
  other_close :: "element option"
  now :: nat
  timers :: "nat list"
  dispatched :: "custom_event list"

definition FrmwrkAlert_observedAttributes :: "string list" where
  "FrmwrkAlert_observedAttributes = [''variant'', ''dismissible'', ''open'']"

text \<open>
  \<^verbatim>\<open>_render\<close> writes \<^verbatim>\<open>this._variant\<close> into the markup unescaped, inside the
  double-quoted class attribute of the \<^verbatim>\<open>div\<close>. The HTML parser takes every character
  of a double-quoted attribute value literally except the quote that ends it, the
  ampersand that starts a character reference, NUL, which it replaces, and CR, which it
  turns into LF. A variant free of the four is plain: the markup is then the template's,
  the class of the \<^verbatim>\<open>div\<close> is \<^verbatim>\<open>alert \<close> followed by the variant, and the only other
  element with the class \<^verbatim>\<open>close-button\<close> is the button, rendered inside the \<^verbatim>\<open>div\<close>
  when \<^verbatim>\<open>_dismissible\<close> holds.
\<close>

definition html_plain :: "string \<Rightarrow> bool" where
  "html_plain v =
     list_all (\<lambda>c. c \<noteq> CHR 0x22 \<and> c \<noteq> CHR ''&'' \<and> c \<noteq> CHR 0x00 \<and> c \<noteq> CHR 0x0D) v"

text \<open>
  For a variant that is not plain the markup is whatever the HTML parser makes of the
  injected text: the class of the \<^verbatim>\<open>div\<close>, and whether an element with the class
  \<^verbatim>\<open>close-button\<close> follows it, and where. This model does not compute that; the two
  values are left unspecified, so that nothing is proved about them.
\<close>

definition injected_alert_class :: "string \<Rightarrow> string" where
  "injected_alert_class = undefined"

definition injected_close_button :: "string \<Rightarrow> bool \<Rightarrow> bool option" where
  "injected_close_button = undefined"

definition FrmwrkAlert__render :: "alert \<Rightarrow> alert" where
  \<comment> \<open>\<^verbatim>\<open>innerHTML\<close> is replaced: every element is fresh and has no listeners.\<close>
  "FrmwrkAlert__render s =
     (if html_plain (variant_f s)
      then s\<lparr>alert_class := ''alert '' @ variant_f s,
             alert_listeners := [],
             other_close := (if dismissible_f s
                             then Some \<lparr>el_listeners = [], in_alert = True\<rparr> else None)\<rparr>
      else s\<lparr>alert_class := injected_alert_class (variant_f s),
             alert_listeners := [],
             other_close := map_option (\<lambda>i. \<lparr>el_listeners = [], in_alert = i\<rparr>)
                              (injected_close_button (variant_f s) (dismissible_f s))\<rparr>)"

definition FrmwrkAlert_constructor :: alert where
  "FrmwrkAlert_constructor =
     FrmwrkAlert__render
       \<lparr>attrs = Map.empty, variant_f = ''info'', dismissible_f = False, open_f = True,
        alert_class = [], alert_listeners = [], other_close = None,
        now = 0, timers = [], dispatched = []\<rparr>"

text \<open>
  \<^verbatim>\<open>querySelector('.close-button')\<close>: the \<^verbatim>\<open>div\<close> comes first in tree order. The
  listeners of the element found are \<open>close_button\<close>; \<open>None\<close> is the source's
  \<^verbatim>\<open>null\<close>.
\<close>

datatype target = Alert_div | Other_element

definition querySelector_close_button :: "alert \<Rightarrow> target option" where
  "querySelector_close_button s =
     (if classList_contains (alert_class s) ''close-button'' then Some Alert_div
      else if other_close s \<noteq> None then Some Other_element
      else None)"

definition close_button :: "alert \<Rightarrow> listener list option" where
  "close_button s =
     (case querySelector_close_button s of
        None \<Rightarrow> None
      | Some Alert_div \<Rightarrow> Some (alert_listeners s)
      | Some Other_element \<Rightarrow> map_option el_listeners (other_close s))"

fun addEventListener :: "alert \<Rightarrow> target \<Rightarrow> listener \<Rightarrow> alert" where
  "addEventListener s Alert_div l = s\<lparr>alert_listeners := alert_listeners s @ [l]\<rparr>"
| "addEventListener s Other_element l =
     s\<lparr>other_close :=
         map_option (\<lambda>e. e\<lparr>el_listeners := el_listeners e @ [l]\<rparr>) (other_close s)\<rparr>"

definition FrmwrkAlert_connectedCallback :: "alert \<Rightarrow> alert" where
  "FrmwrkAlert_connectedCallback s =
     (let closeButton = querySelector_close_button s;
          s1 = (case closeButton of
                  Some t \<Rightarrow> addEventListener s t Click_dismiss | None \<Rightarrow> s)
      in case closeButton of
           Some t \<Rightarrow> addEventListener s1 t Keydown_dismiss | None \<Rightarrow> s1)"

definition FrmwrkAlert_disconnectedCallback :: "alert \<Rightarrow> alert" where
  \<comment> \<open>\<^verbatim>\<open>removeEventListener('click', this._dismiss)\<close> names the method, which was never
      registered (the listeners are closures), so nothing is removed.\<close>
  "FrmwrkAlert_disconnectedCallback s = s"

definition FrmwrkAlert__updateVariant :: "alert \<Rightarrow> alert" where
  \<comment> \<open>\<^verbatim>\<open>className\<close> is assigned, not parsed: the class is the string as it is.\<close>
  "FrmwrkAlert__updateVariant s = s\<lparr>alert_class := ''alert '' @ variant_f s\<rparr>"

definition FrmwrkAlert__updateDismissible :: "alert \<Rightarrow> alert" where
  "FrmwrkAlert__updateDismissible s =
     (let s1 = FrmwrkAlert__render s
      in if dismissible_f s1
         then (case querySelector_close_button s1 of
                 Some t \<Rightarrow> addEventListener s1 t Click_dismiss | None \<Rightarrow> s1)
         else s1)"

text \<open>
  How many calls a write of the host's attributes can still cause, from the value \<open>a\<close> of
  the \<^verbatim>\<open>open\<close> attribute at the time of the call. Only used to show that the mutual
  recursion below ends.
\<close>

definition rank_set :: "string \<Rightarrow> string option \<Rightarrow> string \<Rightarrow> nat" where
  "rank_set n a v =
     (if n \<noteq> ''open'' \<or> a = Some v then 1 else if v = ''false'' then 4 else 10)"

definition rank_remove :: "string \<Rightarrow> string option \<Rightarrow> nat" where
  "rank_remove n a = (if n \<noteq> ''open'' then 1 else if a = None then 0 else 7)"

definition rank_visibility :: "bool \<Rightarrow> string option \<Rightarrow> nat" where
  "rank_visibility op a =
     Suc (if \<not> op then rank_set ''open'' a ''false'' else rank_remove ''open'' a)"

definition rank_callback ::
  "string \<Rightarrow> string option \<Rightarrow> string option \<Rightarrow> string option \<Rightarrow> nat" where
  "rank_callback n a oldValue newValue =
     (if n \<noteq> ''open'' \<or> oldValue = newValue then 0
      else Suc (rank_visibility (newValue \<noteq> Some ''false'' \<and> newValue \<noteq> None) a))"

text \<open>
  The attribute-changed reaction and the host's \<^verbatim>\<open>setAttribute\<close> and
  \<^verbatim>\<open>removeAttribute\<close> call each other: \<^verbatim>\<open>_updateVisibility\<close> writes the \<^verbatim>\<open>open\<close>
  attribute from inside the callback for \<^verbatim>\<open>open\<close>, and the browser runs the reaction to
  that write before the write returns. The recursion ends because a second write of
  \<^verbatim>\<open>open="false"\<close> reaches the callback with equal old and new value.
\<close>

function
  FrmwrkAlert_attributeChangedCallback ::
    "alert \<Rightarrow> string \<Rightarrow> string option \<Rightarrow> string option \<Rightarrow> alert" and
  FrmwrkAlert__updateVisibility :: "alert \<Rightarrow> alert" and
  alert_setAttribute :: "alert \<Rightarrow> string \<Rightarrow> string \<Rightarrow> alert" and
  alert_removeAttribute :: "alert \<Rightarrow> string \<Rightarrow> alert"
where
  "FrmwrkAlert_attributeChangedCallback s name oldValue newValue =
     (if oldValue = newValue then s
      else if name = ''variant''
        then FrmwrkAlert__updateVariant (s\<lparr>variant_f := or_default newValue ''info''\<rparr>)
      else if name = ''dismissible''
        then FrmwrkAlert__updateDismissible (s\<lparr>dismissible_f := (newValue \<noteq> None)\<rparr>)
      else if name = ''open''
        then FrmwrkAlert__updateVisibility
               (s\<lparr>open_f := (newValue \<noteq> Some ''false'' \<and> newValue \<noteq> None)\<rparr>)
      else s)"
| "FrmwrkAlert__updateVisibility s =
     (if \<not> open_f s then alert_setAttribute s ''open'' ''false''
      else alert_removeAttribute s ''open'')"
| "alert_setAttribute s name v =
     (if name \<in> set FrmwrkAlert_observedAttributes
      then FrmwrkAlert_attributeChangedCallback
             (s\<lparr>attrs := (attrs s)(name \<mapsto> v)\<rparr>) name (attrs s name) (Some v)
      else s\<lparr>attrs := (attrs s)(name \<mapsto> v)\<rparr>)"
| "alert_removeAttribute s name =
     (if attrs s name = None then s
      else if name \<in> set FrmwrkAlert_observedAttributes
      then FrmwrkAlert_attributeChangedCallback
             (s\<lparr>attrs := (attrs s)(name := None)\<rparr>) name (attrs s name) None
      else s\<lparr>attrs := (attrs s)(name := None)\<rparr>)"
  by pat_completeness auto

termination FrmwrkAlert_attributeChangedCallback
  apply (relation "measure (\<lambda>x. case x of
            Inl (Inl (s, n, ov, nv)) \<Rightarrow> rank_callback n (attrs s ''open'') ov nv
          | Inl (Inr s) \<Rightarrow> rank_visibility (open_f s) (attrs s ''open'')
          | Inr (Inl (s, n, v)) \<Rightarrow> rank_set n (attrs s ''open'') v
          | Inr (Inr (s, n)) \<Rightarrow> rank_remove n (attrs s ''open''))")
  apply (auto simp: rank_callback_def rank_visibility_def rank_set_def rank_remove_def)
  done

declare FrmwrkAlert_attributeChangedCallback.simps [simp del]
declare FrmwrkAlert__updateVisibility.simps [simp del]
declare alert_setAttribute.simps [simp del]
declare alert_removeAttribute.simps [simp del]

text \<open>
  \<^verbatim>\<open>_dismiss\<close> marks \<^verbatim>\<open>div.alert\<close> as dismissing and schedules its closure 300 ms from
  now (every render creates \<^verbatim>\<open>div.alert\<close>, so the query never yields \<^verbatim>\<open>null\<close>). It reads
  neither \<^verbatim>\<open>_dismissible\<close> nor \<^verbatim>\<open>_open\<close>. \<open>dismiss_timeout\<close> is the closure; it
  runs on the element whether or not it is still in the document.
\<close>

definition FrmwrkAlert__dismiss :: "alert \<Rightarrow> alert" where
  "FrmwrkAlert__dismiss s =
     s\<lparr>alert_class := classList_add (alert_class s) ''dismissing'',
       timers := timers s @ [now s + 300]\<rparr>"

definition dismiss_timeout :: "alert \<Rightarrow> alert" where
  "dismiss_timeout s =
     (let s1 = s\<lparr>open_f := False\<rparr>;
          s2 = alert_setAttribute s1 ''open'' ''false''
      in s2\<lparr>dispatched := dispatched s2 @
              [\<lparr>ev_type = ''alert-dismissed'', detail = [(''variant'', variant_f s2)],
                bubbles = True, composed = True\<rparr>]\<rparr>)"

definition FrmwrkAlert_show :: "alert \<Rightarrow> alert" where
  "FrmwrkAlert_show s = alert_removeAttribute (s\<lparr>open_f := True\<rparr>) ''open''"

definition FrmwrkAlert_dismiss :: "alert \<Rightarrow> alert" where
  "FrmwrkAlert_dismiss s = FrmwrkAlert__dismiss s"

text \<open>
  User input on the close control, the element \<^verbatim>\<open>querySelector('.close-button')\<close>
  finds. A click runs the click listeners of that element in registration order, and
  then, when the element lies inside the \<^verbatim>\<open>div\<close>, those of the \<^verbatim>\<open>div\<close>, to which the
  event bubbles; a key press does the same with the keydown listeners, each of which
  dismisses on Enter or Space (and prevents the key's default action, which is not
  modelled). Where the query finds nothing there is no control to activate.
\<close>

fun run_click_listener :: "listener \<Rightarrow> alert \<Rightarrow> alert" where
  "run_click_listener Click_dismiss s = FrmwrkAlert__dismiss s"
| "run_click_listener Keydown_dismiss s = s"

fun run_keydown_listener :: "string \<Rightarrow> listener \<Rightarrow> alert \<Rightarrow> alert" where
  "run_keydown_listener key Keydown_dismiss s =
     (if key = ''Enter'' \<or> key = '' '' then FrmwrkAlert__dismiss s else s)"
| "run_keydown_listener key Click_dismiss s = s"

definition dispatch_on_close_button :: "(listener \<Rightarrow> alert \<Rightarrow> alert) \<Rightarrow> alert \<Rightarrow> alert" where
  "dispatch_on_close_button run s =
     (case querySelector_close_button s of
        None \<Rightarrow> s
      | Some Alert_div \<Rightarrow> fold run (alert_listeners s) s
      | Some Other_element \<Rightarrow>
          (case other_close s of
             None \<Rightarrow> s
           | Some e \<Rightarrow>
               (let s1 = fold run (el_listeners e) s
                in if in_alert e then fold run (alert_listeners s) s1 else s1)))"

definition click_close_button :: "alert \<Rightarrow> alert" where
  "click_close_button s = dispatch_on_close_button run_click_listener s"

definition keydown_close_button :: "string \<Rightarrow> alert \<Rightarrow> alert" where
  "keydown_close_button key s = dispatch_on_close_button (run_keydown_listener key) s"

text \<open>
  Time passing: the clock moves on by \<open>dt\<close> milliseconds and every pending closure that is
  due by then runs. The closures are all the same and schedule nothing.
\<close>

definition advance :: "nat \<Rightarrow> alert \<Rightarrow> alert" where
  "advance dt s =
     (let t = now s + dt;
          due = filter (\<lambda>d. d \<le> t) (timers s);
          s' = s\<lparr>now := t, timers := filter (\<lambda>d. \<not> d \<le> t) (timers s)\<rparr>
      in fold (\<lambda>d. dismiss_timeout) due s')"

text \<open>
  The states of the lifecycle. An alert is open when \<^verbatim>\<open>_open\<close> holds and the host carries
  no \<^verbatim>\<open>open\<close> attribute, closed when \<^verbatim>\<open>_open\<close> is false and the host carries
  \<^verbatim>\<open>open="false"\<close> (the selector that hides it), and dismissing while \<^verbatim>\<open>div.alert\<close>
  carries the class of the exit animation.
\<close>

definition is_open :: "alert \<Rightarrow> bool" where
  "is_open s = (open_f s \<and> attrs s ''open'' = None)"

definition is_closed :: "alert \<Rightarrow> bool" where
  "is_closed s = (\<not> open_f s \<and> attrs s ''open'' = Some ''false'')"

definition is_dismissing :: "alert \<Rightarrow> bool" where
  "is_dismissing s = classList_contains (alert_class s) ''dismissing''"

text \<open>The two events of the script, by the value they carry.\<close>

definition alert_dismissed_event :: "string \<Rightarrow> custom_event" where
  "alert_dismissed_event v =
     \<lparr>ev_type = ''alert-dismissed'', detail = [(''variant'', v)],
      bubbles = True, composed = True\<rparr>"

definition theme_changed_event :: "string \<Rightarrow> custom_event" where
  "theme_changed_event v =
     \<lparr>ev_type = ''theme-changed'', detail = [(''theme'', v)],
      bubbles = True, composed = True\<rparr>"

text \<open>
  Everything that can happen to an alert after its construction: the host page writes
  attributes or calls the public methods, the browser connects and disconnects the
  element, the user activates the close control, and time passes.
\<close>

datatype alert_op =
    SetAttribute string string
  | RemoveAttribute string
  | Connected
  | Disconnected
  | ClickClose
  | KeydownClose string
  | Dismiss
  | Show
  | Advance nat

fun alert_step :: "alert_op \<Rightarrow> alert \<Rightarrow> alert" where
  "alert_step (SetAttribute n v) s = alert_setAttribute s n v"
| "alert_step (RemoveAttribute n) s = alert_removeAttribute s n"
| "alert_step Connected s = FrmwrkAlert_connectedCallback s"
| "alert_step Disconnected s = FrmwrkAlert_disconnectedCallback s"
| "alert_step ClickClose s = click_close_button s"
| "alert_step (KeydownClose key) s = keydown_close_button key s"
| "alert_step Dismiss s = FrmwrkAlert_dismiss s"
| "alert_step Show s = FrmwrkAlert_show s"
| "alert_step (Advance dt) s = advance dt s"

definition alert_run :: "alert_op list \<Rightarrow> alert" where
  "alert_run ops = fold alert_step ops FrmwrkAlert_constructor"


text \<open>
  An ordinary variant is a plain one that does not carry the token \<^verbatim>\<open>close-button\<close>,
  in whatever letter case: the queries above compare class names exactly, as a document
  with a doctype does, and a document in quirks mode compares them without regard to
  case. While only ordinary variants are written to the host, the markup is the
  template's and the only element \<^verbatim>\<open>querySelector('.close-button')\<close> can find is the
  button.

  The operations above take an attribute name as the DOM stores it. The DOM lower-cases
  the name \<^verbatim>\<open>setAttribute\<close> is called with and refuses one that is no attribute name,
  so an ordinary operation names its attribute in lower-case letters, digits, hyphens and
  underscores.
\<close>

definition ascii_lowercase :: "string \<Rightarrow> string" where
  "ascii_lowercase v =
     map (\<lambda>c. case map_of (zip ''ABCDEFGHIJKLMNOPQRSTUVWXYZ'' ''abcdefghijklmnopqrstuvwxyz'') c of
                None \<Rightarrow> c | Some d \<Rightarrow> d) v"

definition ordinary_variant :: "string \<Rightarrow> bool" where
  "ordinary_variant v =
     (html_plain v \<and>
      \<not> classList_contains (''alert '' @ v) ''close-button'' \<and>
      \<not> classList_contains (''alert '' @ ascii_lowercase v) ''close-button'')"

definition stored_name :: "string \<Rightarrow> bool" where
  "stored_name n =
     (n \<noteq> [] \<and> list_all (\<lambda>c. c \<in> set ''abcdefghijklmnopqrstuvwxyz0123456789-_'') n)"

fun ordinary_op :: "alert_op \<Rightarrow> bool" where
  "ordinary_op (SetAttribute n v) =
     (stored_name n \<and> (if n = ''variant'' then ordinary_variant v else True))"
| "ordinary_op (RemoveAttribute n) = stored_name n"
| "ordinary_op _ = True"

definition ordinary_ops :: "alert_op list \<Rightarrow> bool" where
  "ordinary_ops ops = list_all ordinary_op ops"

definition ordinary_inv :: "alert \<Rightarrow> bool" where
  "ordinary_inv s =
     (ordinary_variant (variant_f s) \<and>
      \<not> classList_contains (alert_class s) ''close-button'' \<and>
      (other_close s \<noteq> None) = dismissible_f s)"

section \<open>Facts about the token list\<close>

lemma split_append_token:
  "\<forall>c \<in> set t. \<not> is_ascii_whitespace c \<Longrightarrow>
   split_on_whitespace cur (t @ rest) = split_on_whitespace (cur @ t) rest"
  by (induction t arbitrary: cur) simp_all

lemma space_is_whitespace: "is_ascii_whitespace (CHR '' '')"
  by (simp add: is_ascii_whitespace_def)

lemma split_serializer:
  "\<forall>t \<in> set ts. valid_token t \<Longrightarrow> split_on_whitespace [] (ordered_set_serializer ts) = ts"
proof (induction ts rule: ordered_set_serializer.induct)
  case 1
  show ?case by simp
next
  case (2 t)
  then have "split_on_whitespace [] (t @ []) = split_on_whitespace ([] @ t) []"
    by (intro split_append_token) (simp add: valid_token_def)
  with 2 show ?case by (simp add: valid_token_def)
next
  case (3 t u ts)
  then have t: "\<forall>c \<in> set t. \<not> is_ascii_whitespace c" "t \<noteq> []"
    by (simp_all add: valid_token_def)
  have "split_on_whitespace [] (t @ CHR '' '' # ordered_set_serializer (u # ts)) =
        split_on_whitespace ([] @ t) (CHR '' '' # ordered_set_serializer (u # ts))"
    using t(1) by (rule split_append_token)
  with 3 t(2) show ?case by (simp add: space_is_whitespace)
qed

lemma foldl_append_distinct:
  "distinct (acc @ xs) \<Longrightarrow> foldl ordered_set_append acc xs = acc @ xs"
  by (induction xs arbitrary: acc) auto

lemma set_foldl_append: "set (foldl ordered_set_append acc xs) = set acc \<union> set xs"
  by (induction xs arbitrary: acc) auto

lemma distinct_foldl_append:
  "distinct acc \<Longrightarrow> distinct (foldl ordered_set_append acc xs)"
  by (induction xs arbitrary: acc) auto

lemma split_valid:
  "\<forall>c \<in> set cur. \<not> is_ascii_whitespace c \<Longrightarrow>
   t \<in> set (split_on_whitespace cur xs) \<Longrightarrow> valid_token t"
proof (induction xs arbitrary: cur)
  case Nil
  then show ?case by (auto simp: valid_token_def split: if_splits)
next
  case (Cons a xs)
  show ?case
  proof (cases "is_ascii_whitespace a")
    case True
    with Cons.prems(2) have "(t = cur \<and> cur \<noteq> []) \<or> t \<in> set (split_on_whitespace [] xs)"
      by (auto split: if_splits)
    then show ?thesis
      using Cons.IH [of "[]"] Cons.prems(1) by (auto simp: valid_token_def)
  next
    case False
    with Cons.prems(2) have "t \<in> set (split_on_whitespace (cur @ [a]) xs)"
      by simp
    moreover have "\<forall>c \<in> set (cur @ [a]). \<not> is_ascii_whitespace c"
      using False Cons.prems(1) by simp
    ultimately show ?thesis
      using Cons.IH [of "cur @ [a]"] by blast
  qed
qed

lemma parser_distinct: "distinct (ordered_set_parser cls)"
  by (simp add: ordered_set_parser_def distinct_foldl_append)

lemma parser_valid: "t \<in> set (ordered_set_parser cls) \<Longrightarrow> valid_token t"
  using split_valid [of "[]" t cls] by (simp add: ordered_set_parser_def set_foldl_append)

lemma parser_serializer:
  "distinct ts \<Longrightarrow> \<forall>t \<in> set ts. valid_token t \<Longrightarrow>
   ordered_set_parser (ordered_set_serializer ts) = ts"
  by (simp add: ordered_set_parser_def split_serializer foldl_append_distinct)

lemma parser_classList_add:
  "valid_token tok \<Longrightarrow>
   ordered_set_parser (classList_add cls tok) = ordered_set_append (ordered_set_parser cls) tok"
  unfolding classList_add_def
  by (rule parser_serializer) (auto simp: parser_distinct parser_valid)

lemma parser_classList_remove:
  "ordered_set_parser (classList_remove cls tok) = filter (\<lambda>t. t \<noteq> tok) (ordered_set_parser cls)"
  unfolding classList_remove_def
  by (rule parser_serializer) (auto simp: parser_distinct parser_valid)

lemma contains_add:
  "valid_token tok \<Longrightarrow>
   classList_contains (classList_add cls tok) t = (t = tok \<or> classList_contains cls t)"
  by (auto simp: classList_contains_def parser_classList_add)

lemma contains_remove:
  "classList_contains (classList_remove cls tok) t = (t \<noteq> tok \<and> classList_contains cls t)"
  by (auto simp: classList_contains_def parser_classList_remove)

lemma classList_add_idem:
  "valid_token tok \<Longrightarrow> classList_add (classList_add cls tok) tok = classList_add cls tok"
  by (simp add: classList_add_def [of "classList_add cls tok"] parser_classList_add)
     (simp add: classList_add_def)

lemma valid_dismissing: "valid_token ''dismissing''"
  by (simp add: valid_token_def is_ascii_whitespace_def)

lemma valid_theme_dark: "valid_token ''theme-dark''"
  by (simp add: valid_token_def is_ascii_whitespace_def)

section \<open>Closed forms of the alert's attribute reactions\<close>

lemmas alert_attr_simps =
  FrmwrkAlert_attributeChangedCallback.simps FrmwrkAlert__updateVisibility.simps
  alert_setAttribute.simps alert_removeAttribute.simps FrmwrkAlert_observedAttributes_def

lemma setAttribute_open:
  "alert_setAttribute s ''open'' v =
     (if attrs s ''open'' = Some v then s
      else s\<lparr>attrs := (attrs s)(''open'' \<mapsto> ''false''), open_f := False\<rparr>)"
  by (cases "v = ''false''") (simp_all add: alert_attr_simps fun_upd_idem)

lemma removeAttribute_open:
  "alert_removeAttribute s ''open'' =
     (if attrs s ''open'' = None then s
      else s\<lparr>attrs := (attrs s)(''open'' \<mapsto> ''false''), open_f := False\<rparr>)"
  by (simp add: alert_attr_simps)

lemma callback_open:
  "oldValue \<noteq> newValue \<Longrightarrow>
   FrmwrkAlert_attributeChangedCallback s ''open'' oldValue newValue =
     (if attrs s ''open'' = None \<and> newValue \<noteq> None \<and> newValue \<noteq> Some ''false''
      then s\<lparr>open_f := True\<rparr>
      else s\<lparr>attrs := (attrs s)(''open'' \<mapsto> ''false''), open_f := False\<rparr>)"
  by (cases "attrs s ''open'' = Some ''false''")
     (simp_all add: FrmwrkAlert_attributeChangedCallback.simps
        FrmwrkAlert__updateVisibility.simps setAttribute_open removeAttribute_open fun_upd_idem)

lemma setAttribute_variant:
  "alert_setAttribute s ''variant'' v =
     (if attrs s ''variant'' = Some v then s
      else s\<lparr>attrs := (attrs s)(''variant'' \<mapsto> v),
             variant_f := or_default (Some v) ''info'',
             alert_class := ''alert '' @ or_default (Some v) ''info''\<rparr>)"
  by (simp add: alert_attr_simps fun_upd_idem FrmwrkAlert__updateVariant_def)

lemma removeAttribute_variant:
  "alert_removeAttribute s ''variant'' =
     (if attrs s ''variant'' = None then s
      else s\<lparr>attrs := (attrs s)(''variant'' := None),
             variant_f := ''info'', alert_class := ''alert info''\<rparr>)"
  by (auto simp add: alert_attr_simps FrmwrkAlert__updateVariant_def or_default_def)

lemma setAttribute_dismissible:
  "alert_setAttribute s ''dismissible'' v =
     (if attrs s ''dismissible'' = Some v then s
      else FrmwrkAlert__updateDismissible
             (s\<lparr>attrs := (attrs s)(''dismissible'' \<mapsto> v), dismissible_f := True\<rparr>))"
  by (simp add: alert_attr_simps fun_upd_idem)

lemma removeAttribute_dismissible:
  "alert_removeAttribute s ''dismissible'' =
     (if attrs s ''dismissible'' = None then s
      else FrmwrkAlert__updateDismissible
             (s\<lparr>attrs := (attrs s)(''dismissible'' := None), dismissible_f := False\<rparr>))"
  by (auto simp add: alert_attr_simps)

lemma setAttribute_unobserved:
  "n \<notin> set FrmwrkAlert_observedAttributes \<Longrightarrow>
   alert_setAttribute s n v = s\<lparr>attrs := (attrs s)(n \<mapsto> v)\<rparr>"
  by (simp add: alert_setAttribute.simps)

lemma removeAttribute_unobserved:
  "n \<notin> set FrmwrkAlert_observedAttributes \<Longrightarrow>
   alert_removeAttribute s n =
     (if attrs s n = None then s else s\<lparr>attrs := (attrs s)(n := None)\<rparr>)"
  by (simp add: alert_removeAttribute.simps)

lemma observed_cases:
  "n = ''variant'' \<or> n = ''dismissible'' \<or> n = ''open'' \<or> n \<notin> set FrmwrkAlert_observedAttributes"
  by (auto simp: FrmwrkAlert_observedAttributes_def)

lemma dismiss_timeout_closed_form:
  "dismiss_timeout s =
     s\<lparr>attrs := (attrs s)(''open'' \<mapsto> ''false''), open_f := False,
       dispatched := dispatched s @ [alert_dismissed_event (variant_f s)]\<rparr>"
  by (cases "attrs s ''open'' = Some ''false''")
     (simp_all add: dismiss_timeout_def Let_def setAttribute_open alert_dismissed_event_def
        fun_upd_idem)

lemma show_closed_form:
  "FrmwrkAlert_show s =
     (if attrs s ''open'' = None then s\<lparr>open_f := True\<rparr>
      else s\<lparr>attrs := (attrs s)(''open'' \<mapsto> ''false''), open_f := False\<rparr>)"
  by (simp add: FrmwrkAlert_show_def removeAttribute_open)

section \<open>Rendering\<close>

lemma addEventListener_fields:
  "attrs (addEventListener s t l) = attrs s"
  "open_f (addEventListener s t l) = open_f s"
  "variant_f (addEventListener s t l) = variant_f s"
  "dismissible_f (addEventListener s t l) = dismissible_f s"
  "alert_class (addEventListener s t l) = alert_class s"
  "timers (addEventListener s t l) = timers s"
  "now (addEventListener s t l) = now s"
  "dispatched (addEventListener s t l) = dispatched s"
  "(other_close (addEventListener s t l) = None) = (other_close s = None)"
  by (cases t; simp)+

lemma updateDismissible_fields:
  "attrs (FrmwrkAlert__updateDismissible s) = attrs s"
  "open_f (FrmwrkAlert__updateDismissible s) = open_f s"
  "variant_f (FrmwrkAlert__updateDismissible s) = variant_f s"
  "dismissible_f (FrmwrkAlert__updateDismissible s) = dismissible_f s"
  "timers (FrmwrkAlert__updateDismissible s) = timers s"
  "now (FrmwrkAlert__updateDismissible s) = now s"
  "dispatched (FrmwrkAlert__updateDismissible s) = dispatched s"
  by (simp_all add: FrmwrkAlert__updateDismissible_def FrmwrkAlert__render_def Let_def
        addEventListener_fields split: option.split)

lemma updateDismissible_ordinary:
  "ordinary_variant (variant_f s) \<Longrightarrow>
   FrmwrkAlert__updateDismissible s =
     s\<lparr>alert_class := ''alert '' @ variant_f s,
       alert_listeners := [],
       other_close := (if dismissible_f s
                       then Some \<lparr>el_listeners = [Click_dismiss], in_alert = True\<rparr>
                       else None)\<rparr>"
  by (simp add: ordinary_variant_def FrmwrkAlert__updateDismissible_def FrmwrkAlert__render_def
        Let_def querySelector_close_button_def)

lemma ordinary_info: "ordinary_variant ''info''"
  by (simp add: ordinary_variant_def html_plain_def ascii_lowercase_def classList_contains_def
        ordered_set_parser_def is_ascii_whitespace_def)

section \<open>What a dismissal, an activation and the passing of time change\<close>

lemma dismiss_closed_form:
  "FrmwrkAlert_dismiss s =
     s\<lparr>alert_class := classList_add (alert_class s) ''dismissing'',
       timers := timers s @ [now s + 300]\<rparr>"
  by (simp add: FrmwrkAlert_dismiss_def FrmwrkAlert__dismiss_def)

lemma dismiss_keeps_close_token:
  "classList_contains (alert_class (FrmwrkAlert__dismiss s)) ''close-button'' =
   classList_contains (alert_class s) ''close-button''"
  by (simp add: FrmwrkAlert__dismiss_def contains_add valid_dismissing)

lemma fold_dismiss_timeout_fields:
  "attrs (fold (\<lambda>d. dismiss_timeout) ds s) =
     (if ds = [] then attrs s else (attrs s)(''open'' \<mapsto> ''false''))"
  "open_f (fold (\<lambda>d. dismiss_timeout) ds s) = (if ds = [] then open_f s else False)"
  "dispatched (fold (\<lambda>d. dismiss_timeout) ds s) =
     dispatched s @ replicate (length ds) (alert_dismissed_event (variant_f s))"
  "variant_f (fold (\<lambda>d. dismiss_timeout) ds s) = variant_f s"
  "dismissible_f (fold (\<lambda>d. dismiss_timeout) ds s) = dismissible_f s"
  "alert_listeners (fold (\<lambda>d. dismiss_timeout) ds s) = alert_listeners s"
  "other_close (fold (\<lambda>d. dismiss_timeout) ds s) = other_close s"
  "alert_class (fold (\<lambda>d. dismiss_timeout) ds s) = alert_class s"
  "timers (fold (\<lambda>d. dismiss_timeout) ds s) = timers s"
  "now (fold (\<lambda>d. dismiss_timeout) ds s) = now s"
  by (induction ds arbitrary: s; simp add: dismiss_timeout_closed_form replicate_app_Cons_same)+

lemma advance_fields:
  "attrs (advance dt s) =
     (if filter (\<lambda>d. d \<le> now s + dt) (timers s) = [] then attrs s
      else (attrs s)(''open'' \<mapsto> ''false''))"
  "open_f (advance dt s) =
     (if filter (\<lambda>d. d \<le> now s + dt) (timers s) = [] then open_f s else False)"
  "dispatched (advance dt s) =
     dispatched s @ replicate (length (filter (\<lambda>d. d \<le> now s + dt) (timers s)))
                      (alert_dismissed_event (variant_f s))"
  "variant_f (advance dt s) = variant_f s"
  "dismissible_f (advance dt s) = dismissible_f s"
  "alert_listeners (advance dt s) = alert_listeners s"
  "other_close (advance dt s) = other_close s"
  "alert_class (advance dt s) = alert_class s"
  "timers (advance dt s) = filter (\<lambda>d. \<not> d \<le> now s + dt) (timers s)"
  "now (advance dt s) = now s + dt"
  by (simp_all add: advance_def Let_def fold_dismiss_timeout_fields)

lemma run_click_listener_eq:
  "run_click_listener l s = (if l = Click_dismiss then FrmwrkAlert__dismiss s else s)"
  by (cases l) simp_all

lemma run_keydown_listener_eq:
  "run_keydown_listener key l s =
     (if l = Keydown_dismiss \<and> (key = ''Enter'' \<or> key = '' '')
      then FrmwrkAlert__dismiss s else s)"
  by (cases l) simp_all

text \<open>
  Listeners only ever run \<^verbatim>\<open>_dismiss\<close>, which leaves everything but the class of the
  \<^verbatim>\<open>div\<close> and the pending closures alone.
\<close>

lemma run_step_fields:
  assumes "x = s \<or> x = FrmwrkAlert__dismiss s"
  shows "attrs x = attrs s" and "open_f x = open_f s" and "dispatched x = dispatched s"
    and "variant_f x = variant_f s" and "dismissible_f x = dismissible_f s"
    and "alert_listeners x = alert_listeners s" and "other_close x = other_close s"
    and "now x = now s"
    and "classList_contains (alert_class x) ''close-button'' =
         classList_contains (alert_class s) ''close-button''"
  using assms by (auto simp: FrmwrkAlert__dismiss_def contains_add valid_dismissing)

lemma fold_run_fields:
  assumes "\<And>l s. run l s = s \<or> run l s = FrmwrkAlert__dismiss s"
  shows "attrs (fold run ls s) = attrs s"
    and "open_f (fold run ls s) = open_f s"
    and "dispatched (fold run ls s) = dispatched s"
    and "variant_f (fold run ls s) = variant_f s"
    and "dismissible_f (fold run ls s) = dismissible_f s"
    and "alert_listeners (fold run ls s) = alert_listeners s"
    and "other_close (fold run ls s) = other_close s"
    and "now (fold run ls s) = now s"
    and "classList_contains (alert_class (fold run ls s)) ''close-button'' =
         classList_contains (alert_class s) ''close-button''"
  by (induction ls arbitrary: s; simp add: run_step_fields [OF assms])+

lemma click_runs_dismiss:
  "run_click_listener l s = s \<or> run_click_listener l s = FrmwrkAlert__dismiss s"
  by (simp add: run_click_listener_eq)

lemma keydown_runs_dismiss:
  "run_keydown_listener key l s = s \<or> run_keydown_listener key l s = FrmwrkAlert__dismiss s"
  by (simp add: run_keydown_listener_eq)

lemmas fold_click_fields = fold_run_fields [of run_click_listener, OF click_runs_dismiss]

lemmas fold_keydown_fields = fold_run_fields [of "run_keydown_listener key", OF keydown_runs_dismiss] for key

lemma fold_click_timers:
  "timers (fold run_click_listener ls s) =
     timers s @ replicate (length (filter (\<lambda>l. l = Click_dismiss) ls)) (now s + 300)"
  by (induction ls arbitrary: s)
     (simp_all add: run_click_listener_eq FrmwrkAlert__dismiss_def replicate_app_Cons_same)

lemma dispatch_fields:
  assumes "\<And>l s. run l s = s \<or> run l s = FrmwrkAlert__dismiss s"
  shows "attrs (dispatch_on_close_button run s) = attrs s"
    and "open_f (dispatch_on_close_button run s) = open_f s"
    and "dispatched (dispatch_on_close_button run s) = dispatched s"
    and "variant_f (dispatch_on_close_button run s) = variant_f s"
    and "dismissible_f (dispatch_on_close_button run s) = dismissible_f s"
    and "alert_listeners (dispatch_on_close_button run s) = alert_listeners s"
    and "other_close (dispatch_on_close_button run s) = other_close s"
    and "now (dispatch_on_close_button run s) = now s"
    and "classList_contains (alert_class (dispatch_on_close_button run s)) ''close-button'' =
         classList_contains (alert_class s) ''close-button''"
  by (simp_all add: dispatch_on_close_button_def Let_def fold_run_fields [of run, OF assms]
        split: option.split target.split)

lemmas click_fields =
  dispatch_fields [of run_click_listener, OF click_runs_dismiss, folded click_close_button_def]

lemmas keydown_fields =
  dispatch_fields [of "run_keydown_listener key", OF keydown_runs_dismiss,
    folded keydown_close_button_def] for key

lemma dispatch_without_control:
  "querySelector_close_button s = None \<Longrightarrow> dispatch_on_close_button run s = s"
  by (simp add: dispatch_on_close_button_def)

section \<open>Invariants of the alert\<close>




lemma connectedCallback_fields:
  "attrs (FrmwrkAlert_connectedCallback s) = attrs s"
  "open_f (FrmwrkAlert_connectedCallback s) = open_f s"
  "variant_f (FrmwrkAlert_connectedCallback s) = variant_f s"
  "dismissible_f (FrmwrkAlert_connectedCallback s) = dismissible_f s"
  "alert_class (FrmwrkAlert_connectedCallback s) = alert_class s"
  "timers (FrmwrkAlert_connectedCallback s) = timers s"
  "now (FrmwrkAlert_connectedCallback s) = now s"
  "dispatched (FrmwrkAlert_connectedCallback s) = dispatched s"
  "(other_close (FrmwrkAlert_connectedCallback s) = None) = (other_close s = None)"
  by (simp_all add: FrmwrkAlert_connectedCallback_def Let_def addEventListener_fields
        split: option.split)










text \<open>Once closed, always closed.\<close>

lemma closed_step: "is_closed s \<Longrightarrow> is_closed (alert_step op s)"
proof (cases op)
  case (SetAttribute n v)
  assume "is_closed s"
  then show ?thesis
    using observed_cases [of n] SetAttribute
    by (elim disjE)
       (auto simp: is_closed_def setAttribute_open setAttribute_variant
          setAttribute_dismissible setAttribute_unobserved updateDismissible_fields
          FrmwrkAlert_observedAttributes_def)
next
  case (RemoveAttribute n)
  assume "is_closed s"
  then show ?thesis
    using observed_cases [of n] RemoveAttribute
    by (elim disjE)
       (auto simp: is_closed_def removeAttribute_open removeAttribute_variant
          removeAttribute_dismissible removeAttribute_unobserved updateDismissible_fields
          FrmwrkAlert_observedAttributes_def)
qed (auto simp: is_closed_def connectedCallback_fields
       FrmwrkAlert_disconnectedCallback_def click_fields keydown_fields
       dismiss_closed_form show_closed_form advance_fields)

lemma closed_forever: "is_closed s \<Longrightarrow> is_closed (fold alert_step ops s)"
  by (induction ops arbitrary: s) (simp_all add: closed_step)

text \<open>While only ordinary variants are written, the markup is the template's.\<close>

lemma ordinary_or_default:
  "ordinary_variant v \<Longrightarrow> ordinary_variant (or_default (Some v) ''info'')"
  by (simp add: or_default_def ordinary_info)

lemma ordinary_constructor: "ordinary_inv FrmwrkAlert_constructor"
  using ordinary_info
  by (simp add: ordinary_inv_def FrmwrkAlert_constructor_def FrmwrkAlert__render_def
        ordinary_variant_def)

lemma ordinary_setAttribute:
  assumes "ordinary_inv s" and "ordinary_op (SetAttribute n v)"
  shows "ordinary_inv (alert_setAttribute s n v)"
proof -
  consider "n = ''variant''" | "n = ''dismissible''" | "n = ''open''"
    | "n \<notin> set FrmwrkAlert_observedAttributes"
    using observed_cases [of n] by blast
  then show ?thesis
  proof cases
    case 1
    with assms(2) have "ordinary_variant (or_default (Some v) ''info'')"
      by (simp add: ordinary_or_default)
    with assms(1) 1 show ?thesis
      by (simp add: ordinary_inv_def setAttribute_variant) (simp add: ordinary_variant_def)
  next
    case 2
    with assms(1) show ?thesis
      by (simp add: ordinary_inv_def setAttribute_dismissible updateDismissible_ordinary)
         (simp add: ordinary_variant_def)
  next
    case 3
    with assms(1) show ?thesis
      by (simp add: ordinary_inv_def setAttribute_open)
  next
    case 4
    with assms(1) show ?thesis
      by (simp add: ordinary_inv_def setAttribute_unobserved)
  qed
qed

lemma ordinary_removeAttribute:
  assumes "ordinary_inv s"
  shows "ordinary_inv (alert_removeAttribute s n)"
proof -
  consider "n = ''variant''" | "n = ''dismissible''" | "n = ''open''"
    | "n \<notin> set FrmwrkAlert_observedAttributes"
    using observed_cases [of n] by blast
  then show ?thesis
  proof cases
    case 1
    with assms ordinary_info show ?thesis
      by (simp add: ordinary_inv_def removeAttribute_variant) (simp add: ordinary_variant_def)
  next
    case 2
    with assms show ?thesis
      by (simp add: ordinary_inv_def removeAttribute_dismissible updateDismissible_ordinary)
         (simp add: ordinary_variant_def)
  next
    case 3
    with assms show ?thesis
      by (simp add: ordinary_inv_def removeAttribute_open)
  next
    case 4
    with assms show ?thesis
      by (simp add: ordinary_inv_def removeAttribute_unobserved)
  qed
qed

lemma ordinary_step:
  "ordinary_inv s \<Longrightarrow> ordinary_op op \<Longrightarrow> ordinary_inv (alert_step op s)"
proof (cases op)
  case (SetAttribute n v)
  assume "ordinary_inv s" "ordinary_op op"
  with SetAttribute show ?thesis
    using ordinary_setAttribute [of s n v] by simp
next
  case (RemoveAttribute n)
  assume "ordinary_inv s"
  with RemoveAttribute show ?thesis
    by (simp add: ordinary_removeAttribute)
qed (auto simp: ordinary_inv_def connectedCallback_fields
       FrmwrkAlert_disconnectedCallback_def click_fields keydown_fields
       dismiss_closed_form show_closed_form advance_fields contains_add valid_dismissing)

lemma ordinary_fold:
  "ordinary_inv s \<Longrightarrow> ordinary_ops ops \<Longrightarrow> ordinary_inv (fold alert_step ops s)"
  by (induction ops arbitrary: s) (simp_all add: ordinary_ops_def ordinary_step)

lemma ordinary_run: "ordinary_ops ops \<Longrightarrow> ordinary_inv (alert_run ops)"
  by (simp add: alert_run_def ordinary_fold ordinary_constructor)


lemma ordinary_no_control:
  "ordinary_inv s \<Longrightarrow> \<not> dismissible_f s \<Longrightarrow> querySelector_close_button s = None"
  by (simp add: ordinary_inv_def querySelector_close_button_def)

section \<open>The dismissal of an alert\<close>

lemma constructor_state:
  "FrmwrkAlert_constructor =
     \<lparr>attrs = Map.empty, variant_f = ''info'', dismissible_f = False, open_f = True,
      alert_class = ''alert info'', alert_listeners = [], other_close = None,
      now = 0, timers = [], dispatched = []\<rparr>"
  by (simp add: FrmwrkAlert_constructor_def FrmwrkAlert__render_def html_plain_def)

lemma dismissible_constructor_state:
  "alert_setAttribute FrmwrkAlert_constructor ''dismissible'' [] =
     \<lparr>attrs = [''dismissible'' \<mapsto> []], variant_f = ''info'', dismissible_f = True,
      open_f = True, alert_class = ''alert info'', alert_listeners = [],
      other_close = Some \<lparr>el_listeners = [Click_dismiss], in_alert = True\<rparr>,
      now = 0, timers = [], dispatched = []\<rparr>"
  using ordinary_info
  by (simp add: setAttribute_dismissible updateDismissible_ordinary constructor_state)

lemma info_has_no_close_token: "\<not> classList_contains ''alert info'' ''close-button''"
  using ordinary_info by (simp add: ordinary_variant_def)

text \<open>
  The alert of the documented usage \<^verbatim>\<open><frmwrk-alert dismissible>\<close>: the constructor
  runs, the browser reports the \<^verbatim>\<open>dismissible\<close> attribute to
  \<^verbatim>\<open>attributeChangedCallback\<close>, and then the element is connected.
  \<^verbatim>\<open>_updateDismissible\<close> has put a click listener on the fresh button, and
  \<^verbatim>\<open>connectedCallback\<close> puts a second one on the same button.
\<close>

lemma markup_alert_state:
  "FrmwrkAlert_connectedCallback (alert_setAttribute FrmwrkAlert_constructor ''dismissible'' []) =
     \<lparr>attrs = [''dismissible'' \<mapsto> []], variant_f = ''info'', dismissible_f = True,
      open_f = True, alert_class = ''alert info'', alert_listeners = [],
      other_close =
        Some \<lparr>el_listeners = [Click_dismiss, Click_dismiss, Keydown_dismiss], in_alert = True\<rparr>,
      now = 0, timers = [], dispatched = []\<rparr>"
  by (simp add: dismissible_constructor_state FrmwrkAlert_connectedCallback_def Let_def
        querySelector_close_button_def info_has_no_close_token)

text \<open>
  A programmatic \<^verbatim>\<open>dismiss()\<close> on an open alert with nothing pending: the alert stays
  open until 300 ms have passed, and is closed from then on, with one event dispatched.
\<close>

lemma dismiss_completes_once:
  assumes "is_open s" and "timers s = []"
  shows "dt < 300 \<Longrightarrow> is_open (advance dt (FrmwrkAlert_dismiss s))"
    and "dt < 300 \<Longrightarrow> dispatched (advance dt (FrmwrkAlert_dismiss s)) = dispatched s"
    and "300 \<le> dt \<Longrightarrow> is_closed (advance dt (FrmwrkAlert_dismiss s))"
    and "300 \<le> dt \<Longrightarrow> dispatched (advance dt (FrmwrkAlert_dismiss s)) =
           dispatched s @ [alert_dismissed_event (variant_f s)]"
    and "300 \<le> dt \<Longrightarrow> timers (advance dt (FrmwrkAlert_dismiss s)) = []"
  using assms
  by (simp_all add: is_open_def is_closed_def advance_fields dismiss_closed_form)

text \<open>
  Claim C1 (one dismiss request closes the alert once, after 300 ms, with exactly one
  \<^verbatim>\<open>alert-dismissed\<close> event). The code at the alert of the documented usage, open and
  dismissible: its close button carries two click listeners, so one click runs
  \<^verbatim>\<open>_dismiss\<close> twice, two closures are due at 300 ms, and when they have run the alert
  is closed and two \<^verbatim>\<open>alert-dismissed\<close> events have been dispatched, not one.
\<close>

theorem close_button_click_emits_two_events:
  "(let s0 = FrmwrkAlert_connectedCallback
               (alert_setAttribute FrmwrkAlert_constructor ''dismissible'' []);
        s1 = click_close_button s0;
        s2 = advance 300 s1
    in dismissible_f s0 \<and> is_open s0 \<and>
       close_button s0 = Some [Click_dismiss, Click_dismiss, Keydown_dismiss] \<and>
       timers s1 = [300, 300] \<and>
       is_closed s2 \<and>
       dispatched s2 = [alert_dismissed_event ''info'', alert_dismissed_event ''info''])"
proof -
  let ?s0 = "FrmwrkAlert_connectedCallback
               (alert_setAttribute FrmwrkAlert_constructor ''dismissible'' [])"
  have q: "querySelector_close_button ?s0 = Some Other_element"
    by (simp add: markup_alert_state querySelector_close_button_def info_has_no_close_token)
  have s1: "click_close_button ?s0 =
            fold run_click_listener [Click_dismiss, Click_dismiss, Keydown_dismiss] ?s0"
    by (simp add: click_close_button_def dispatch_on_close_button_def q)
       (simp add: markup_alert_state)
  have t1: "timers (click_close_button ?s0) = [300, 300]"
    unfolding s1 fold_click_timers by (simp add: markup_alert_state)
  have "close_button ?s0 = Some [Click_dismiss, Click_dismiss, Keydown_dismiss]"
    by (simp add: close_button_def q) (simp add: markup_alert_state)
  moreover have "dismissible_f ?s0" "is_open ?s0"
    by (simp_all add: markup_alert_state is_open_def)
  moreover have "is_closed (advance 300 (click_close_button ?s0))"
    by (simp add: is_closed_def advance_fields t1 click_fields)
  moreover have "dispatched (advance 300 (click_close_button ?s0)) =
                 [alert_dismissed_event ''info'', alert_dismissed_event ''info'']"
    by (simp add: advance_fields t1 click_fields) (simp add: markup_alert_state)
  ultimately show ?thesis
    using t1 by (simp add: Let_def)
qed

section \<open>Showing a closed alert\<close>

text \<open>
  \<^verbatim>\<open>show()\<close> sets \<^verbatim>\<open>_open\<close> and removes the \<^verbatim>\<open>open\<close> attribute; the reaction to that
  removal clears \<^verbatim>\<open>_open\<close> again and writes \<^verbatim>\<open>open="false"\<close> back. On a closed
  alert the call changes nothing.
\<close>

lemma show_on_closed: "is_closed s \<Longrightarrow> FrmwrkAlert_show s = s"
  by (simp add: is_closed_def show_closed_form fun_upd_idem)

text \<open>
  Claim C2 (\<^verbatim>\<open>show()\<close> returns a closed alert to the open state). The code at an alert
  that was dismissed and has closed: after \<^verbatim>\<open>show()\<close> the internal flag is still false
  and the host still carries \<^verbatim>\<open>open="false"\<close>; the state is the one before the call.
\<close>

theorem show_after_dismiss_stays_closed:
  "(let s0 = advance 300 (FrmwrkAlert_dismiss FrmwrkAlert_constructor);
        s1 = FrmwrkAlert_show s0
    in is_closed s0 \<and> \<not> open_f s1 \<and> attrs s1 ''open'' = Some ''false'' \<and> s1 = s0)"
proof -
  have "is_closed (advance 300 (FrmwrkAlert_dismiss FrmwrkAlert_constructor))"
    by (simp add: is_closed_def advance_fields dismiss_closed_form constructor_state)
  then show ?thesis
    by (simp add: Let_def show_on_closed) (simp add: is_closed_def)
qed

section \<open>Variants\<close>

lemma badge_setAttribute_variant:
  "badge_setAttribute b ''variant'' v =
     (if b_attrs b ''variant'' = Some v then b
      else b\<lparr>b_attrs := (b_attrs b)(''variant'' \<mapsto> v),
             b_variant := or_default (Some v) ''primary'',
             badge_class := ''badge '' @ or_default (Some v) ''primary''\<rparr>)"
  by (simp add: badge_setAttribute_def Let_def FrmwrkBadge_observedAttributes_def
        FrmwrkBadge_attributeChangedCallback_def FrmwrkBadge__updateVariant_def fun_upd_idem)

lemma badge_removeAttribute_variant:
  "badge_removeAttribute b ''variant'' =
     (if b_attrs b ''variant'' = None then b
      else b\<lparr>b_attrs := (b_attrs b)(''variant'' := None),
             b_variant := ''primary'', badge_class := ''badge primary''\<rparr>)"
  by (auto simp: badge_removeAttribute_def Let_def FrmwrkBadge_observedAttributes_def
        FrmwrkBadge_attributeChangedCallback_def FrmwrkBadge__updateVariant_def or_default_def
        split: option.splits)

text \<open>
  Claim C3 (an unrecognized variant renders with the class of the default variant), at
  the variant \<^verbatim>\<open>foo\<close>, which is none of the documented ones: the badge's inner element
  gets the class \<^verbatim>\<open>badge foo\<close> and the alert's \<^verbatim>\<open>alert foo\<close>, not the classes
  \<^verbatim>\<open>badge primary\<close> and \<^verbatim>\<open>alert info\<close> that the default variants render with.
\<close>

theorem unrecognized_variant_keeps_own_class:
  "''foo'' \<notin> set [''primary'', ''accent'', ''subtle''] \<and>
   ''foo'' \<notin> set [''info'', ''success'', ''warning'', ''error''] \<and>
   badge_class FrmwrkBadge_constructor = ''badge primary'' \<and>
   badge_class (badge_setAttribute FrmwrkBadge_constructor ''variant'' ''foo'') = ''badge foo'' \<and>
   badge_class (badge_setAttribute FrmwrkBadge_constructor ''variant'' ''foo'') \<noteq>
     badge_class (badge_setAttribute FrmwrkBadge_constructor ''variant'' ''primary'') \<and>
   alert_class FrmwrkAlert_constructor = ''alert info'' \<and>
   alert_class (alert_setAttribute FrmwrkAlert_constructor ''variant'' ''foo'') = ''alert foo'' \<and>
   alert_class (alert_setAttribute FrmwrkAlert_constructor ''variant'' ''foo'') \<noteq>
     alert_class (alert_setAttribute FrmwrkAlert_constructor ''variant'' ''info'')"
  by (simp add: badge_setAttribute_variant setAttribute_variant FrmwrkBadge_constructor_def
        FrmwrkBadge__render_def constructor_state or_default_def)

text \<open>
  Claim C3, amended. Writing a new value \<open>v\<close> to the variant attribute makes the class of
  the inner element \<^verbatim>\<open>badge v\<close> (badge) or \<^verbatim>\<open>alert v\<close> (alert), for every non-empty
  \<open>v\<close>, documented or not. The default variant (primary for the badge, info for the
  alert) is rendered only for the empty string and when the attribute is removed. Every
  operation returns a state: there is no error path.
\<close>

theorem variant_class_is_verbatim:
  "(b_attrs b ''variant'' \<noteq> Some v \<longrightarrow>
      badge_class (badge_setAttribute b ''variant'' v) =
        ''badge '' @ (if v = [] then ''primary'' else v)) \<and>
   (attrs a ''variant'' \<noteq> Some v \<longrightarrow>
      alert_class (alert_setAttribute a ''variant'' v) =
        ''alert '' @ (if v = [] then ''info'' else v)) \<and>
   (b_attrs b ''variant'' \<noteq> None \<longrightarrow>
      badge_class (badge_removeAttribute b ''variant'') = ''badge primary'') \<and>
   (attrs a ''variant'' \<noteq> None \<longrightarrow>
      alert_class (alert_removeAttribute a ''variant'') = ''alert info'')"
  by (simp add: badge_setAttribute_variant setAttribute_variant badge_removeAttribute_variant
        removeAttribute_variant or_default_def)

theorem variant_class_is_verbatim_witness:
  "b_attrs (badge_setAttribute FrmwrkBadge_constructor ''variant'' ''accent'') ''variant''
     \<noteq> Some ''foo'' \<and>
   b_attrs (badge_setAttribute FrmwrkBadge_constructor ''variant'' ''accent'') ''variant''
     \<noteq> None \<and>
   attrs (alert_setAttribute FrmwrkAlert_constructor ''variant'' ''warning'') ''variant''
     \<noteq> Some ''foo'' \<and>
   attrs (alert_setAttribute FrmwrkAlert_constructor ''variant'' ''warning'') ''variant''
     \<noteq> None \<and>
   badge_class (badge_setAttribute
       (badge_setAttribute FrmwrkBadge_constructor ''variant'' ''accent'') ''variant'' ''foo'')
     = ''badge foo'' \<and>
   alert_class (alert_setAttribute
       (alert_setAttribute FrmwrkAlert_constructor ''variant'' ''warning'') ''variant'' ''foo'')
     = ''alert foo'' \<and>
   badge_class (badge_removeAttribute
       (badge_setAttribute FrmwrkBadge_constructor ''variant'' ''accent'') ''variant'')
     = ''badge primary'' \<and>
   alert_class (alert_removeAttribute
       (alert_setAttribute FrmwrkAlert_constructor ''variant'' ''warning'') ''variant'')
     = ''alert info''"
  using variant_class_is_verbatim
    [of "badge_setAttribute FrmwrkBadge_constructor ''variant'' ''accent''" "''foo''"
        "alert_setAttribute FrmwrkAlert_constructor ''variant'' ''warning''"]
  by (simp add: badge_setAttribute_variant setAttribute_variant FrmwrkBadge_constructor_def
        FrmwrkBadge__render_def constructor_state)

section \<open>Dismissing twice\<close>

lemma is_dismissing_dismiss: "is_dismissing (FrmwrkAlert_dismiss s)"
  by (simp add: is_dismissing_def dismiss_closed_form contains_add valid_dismissing)

lemma dismiss_twice_class:
  "alert_class (FrmwrkAlert_dismiss (FrmwrkAlert_dismiss s)) =
   alert_class (FrmwrkAlert_dismiss s)"
  by (simp add: dismiss_closed_form classList_add_idem valid_dismissing)

text \<open>
  Claim C4 (a second dismiss before the 300 ms have passed schedules nothing and causes
  no second event), at a dismissible open alert that is dismissed at 0 ms and again at
  100 ms: the second call adds a closure due at 400 ms to the one due at 300 ms, and
  once both have run two \<^verbatim>\<open>alert-dismissed\<close> events have been dispatched, where the
  single dismiss gives one.
\<close>

theorem second_dismiss_emits_second_event:
  "(let s0 = alert_setAttribute FrmwrkAlert_constructor ''dismissible'' [];
        s1 = advance 100 (FrmwrkAlert_dismiss s0);
        s2 = FrmwrkAlert_dismiss s1
    in is_open s0 \<and> dismissible_f s0 \<and>
       timers s1 = [300] \<and> timers s2 = [300, 400] \<and>
       dispatched (advance 300 s1) = [alert_dismissed_event ''info''] \<and>
       dispatched (advance 300 s2) =
         [alert_dismissed_event ''info'', alert_dismissed_event ''info''])"
  by (simp add: Let_def dismissible_constructor_state is_open_def advance_fields
        dismiss_closed_form)

text \<open>
  Claim C4, amended. On an open dismissible alert with nothing pending, a second dismiss
  before the 300 ms of the first have passed changes nothing that is visible at that
  moment: the alert is already dismissing and its class stays the same, the open flag,
  the attributes and the dispatched events are untouched. \<^verbatim>\<open>_dismiss\<close> has no guard,
  though, so the call schedules a second closure, due 300 ms after the second request.
  When both have run the alert is closed, as after a single dismiss, nothing is pending,
  and two \<^verbatim>\<open>alert-dismissed\<close> events carrying the variant have been dispatched.
\<close>

theorem second_dismiss_schedules_second_completion:
  assumes "is_open s" and "dismissible_f s" and "timers s = []" and "dt < 300"
  shows "(let s1 = advance dt (FrmwrkAlert_dismiss s);
              s2 = FrmwrkAlert_dismiss s1;
              s3 = advance 300 s2
          in is_dismissing s1 \<and>
             alert_class s2 = alert_class s1 \<and>
             open_f s2 = open_f s1 \<and> attrs s2 = attrs s1 \<and>
             dispatched s2 = dispatched s1 \<and> dispatched s1 = dispatched s \<and>
             timers s1 = [now s + 300] \<and>
             timers s2 = [now s + 300, now s + dt + 300] \<and>
             is_closed s3 \<and> timers s3 = [] \<and>
             dispatched s3 = dispatched s @
               [alert_dismissed_event (variant_f s), alert_dismissed_event (variant_f s)])"
proof -
  have cls: "alert_class (advance dt (FrmwrkAlert_dismiss s)) =
             classList_add (alert_class s) ''dismissing''"
    by (simp add: advance_fields dismiss_closed_form)
  have "is_dismissing (advance dt (FrmwrkAlert_dismiss s))"
    by (simp add: is_dismissing_def cls contains_add valid_dismissing)
  moreover have "alert_class (FrmwrkAlert_dismiss (advance dt (FrmwrkAlert_dismiss s))) =
                 alert_class (advance dt (FrmwrkAlert_dismiss s))"
    by (simp add: dismiss_closed_form [of "advance dt (FrmwrkAlert_dismiss s)"] cls
          classList_add_idem valid_dismissing)
  ultimately show ?thesis
    using assms
    by (simp add: Let_def is_open_def is_closed_def advance_fields
          dismiss_closed_form [of "advance dt (FrmwrkAlert_dismiss s)"])
       (simp add: dismiss_closed_form)
qed

theorem second_dismiss_schedules_second_completion_witness:
  "(let s = alert_setAttribute FrmwrkAlert_constructor ''dismissible'' [];
        s1 = advance 100 (FrmwrkAlert_dismiss s);
        s2 = FrmwrkAlert_dismiss s1;
        s3 = advance 300 s2
    in is_open s \<and> dismissible_f s \<and> timers s = [] \<and> (100::nat) < 300 \<and>
       is_dismissing s1 \<and> alert_class s2 = alert_class s1 \<and>
       timers s2 = [300, 400] \<and> is_closed s3 \<and>
       dispatched s3 = [alert_dismissed_event ''info'', alert_dismissed_event ''info''])"
proof -
  let ?s = "alert_setAttribute FrmwrkAlert_constructor ''dismissible'' []"
  have h: "is_open ?s" "dismissible_f ?s" "timers ?s = []" "(100::nat) < 300"
    by (simp_all add: dismissible_constructor_state is_open_def)
  have v: "variant_f ?s = ''info''" "now ?s = 0" "dispatched ?s = []"
    by (simp_all add: dismissible_constructor_state)
  show ?thesis
    using second_dismiss_schedules_second_completion [OF h] h
    by (simp add: Let_def v)
qed

section \<open>Alerts that are not dismissible\<close>

lemma constructor_not_dismissing: "\<not> is_dismissing FrmwrkAlert_constructor"
  by (simp add: is_dismissing_def constructor_state classList_contains_def
        ordered_set_parser_def is_ascii_whitespace_def)

text \<open>
  Claim C5 (no dismiss request, a programmatic \<^verbatim>\<open>dismiss()\<close> included, takes an alert
  that is not dismissible from open to dismissing), at the freshly constructed alert,
  which is open, not dismissible and not dismissing: \<^verbatim>\<open>dismiss()\<close> makes it dismissing
  and schedules the closure, and 300 ms later it is closed.
\<close>

theorem programmatic_dismiss_ignores_dismissible:
  "\<not> dismissible_f FrmwrkAlert_constructor \<and>
   is_open FrmwrkAlert_constructor \<and>
   \<not> is_dismissing FrmwrkAlert_constructor \<and>
   is_dismissing (FrmwrkAlert_dismiss FrmwrkAlert_constructor) \<and>
   timers (FrmwrkAlert_dismiss FrmwrkAlert_constructor) = [300] \<and>
   is_closed (advance 300 (FrmwrkAlert_dismiss FrmwrkAlert_constructor))"
  using constructor_not_dismissing is_dismissing_dismiss [of FrmwrkAlert_constructor]
  by (simp add: is_open_def is_closed_def advance_fields dismiss_closed_form constructor_state)

text \<open>
  Claim C5, amended. Take an alert to whose variant attribute only ordinary values have
  been written: values that the markup takes literally (no double quote, ampersand, NUL
  or CR) and that do not carry the class name \<^verbatim>\<open>close-button\<close> in any letter case.
  Whatever else has happened to it since its construction (attributes being named as the
  DOM stores them), while its dismissible flag is false the
  rendered markup has no close control, so a click or a key press on the control changes
  nothing: the user cannot dismiss it. A programmatic \<^verbatim>\<open>dismiss()\<close> does not look at
  the flag: it makes the alert dismissing and schedules the closure 300 ms ahead.
\<close>

theorem no_close_control_without_dismissible:
  assumes "ordinary_ops ops" and "\<not> dismissible_f (alert_run ops)"
  shows "(let s = alert_run ops
          in close_button s = None \<and>
             click_close_button s = s \<and>
             keydown_close_button key s = s \<and>
             is_dismissing (FrmwrkAlert_dismiss s) \<and>
             timers (FrmwrkAlert_dismiss s) = timers s @ [now s + 300])"
proof -
  have q: "querySelector_close_button (alert_run ops) = None"
    using assms by (simp add: ordinary_run ordinary_no_control)
  then have "close_button (alert_run ops) = None"
    by (simp add: close_button_def)
  with q show ?thesis
    using is_dismissing_dismiss [of "alert_run ops"]
    by (simp add: Let_def click_close_button_def keydown_close_button_def
          dispatch_without_control)
       (simp add: dismiss_closed_form)
qed

lemma ordinary_warning: "ordinary_variant ''warning''"
  by (simp add: ordinary_variant_def html_plain_def ascii_lowercase_def classList_contains_def
        ordered_set_parser_def is_ascii_whitespace_def)

lemma warning_alert_state:
  "alert_run [SetAttribute ''variant'' ''warning'', Connected] =
     \<lparr>attrs = [''variant'' \<mapsto> ''warning''], variant_f = ''warning'', dismissible_f = False,
      open_f = True, alert_class = ''alert warning'', alert_listeners = [],
      other_close = None, now = 0, timers = [], dispatched = []\<rparr>"
  using ordinary_warning
  by (simp add: alert_run_def constructor_state setAttribute_variant or_default_def
        FrmwrkAlert_connectedCallback_def querySelector_close_button_def
        ordinary_variant_def)

theorem no_close_control_without_dismissible_witness:
  "(let ops = [SetAttribute ''variant'' ''warning'', Connected];
        s = alert_run ops
    in ordinary_ops ops \<and>
       \<not> dismissible_f s \<and> close_button s = None \<and> click_close_button s = s \<and>
       keydown_close_button ''Enter'' s = s \<and>
       is_dismissing (FrmwrkAlert_dismiss s) \<and>
       timers (FrmwrkAlert_dismiss s) = [300])"
proof -
  let ?ops = "[SetAttribute ''variant'' ''warning'', Connected]"
  have o: "ordinary_ops ?ops"
    by (simp add: ordinary_ops_def ordinary_warning stored_name_def)
  have h: "\<not> dismissible_f (alert_run ?ops)"
    by (simp add: warning_alert_state)
  show ?thesis
    using no_close_control_without_dismissible [OF o h, of "''Enter''"] o h
    by (simp add: Let_def) (simp add: warning_alert_state)
qed

section \<open>Attribute changes on an alert\<close>







text \<open>
  Claim C10. For every alert, the attribute-changed callback for \<^verbatim>\<open>open\<close> with a new
  value of \<^verbatim>\<open>null\<close> leaves the alert closed: \<^verbatim>\<open>_open\<close> is false and the host carries
  \<^verbatim>\<open>open="false"\<close> again. So removing the \<^verbatim>\<open>open\<close> attribute from a host that carries
  it, whatever its value, closes the alert instead of opening it.
\<close>

theorem removing_open_attribute_closes:
  "(oldValue \<noteq> None \<longrightarrow>
      is_closed (FrmwrkAlert_attributeChangedCallback s ''open'' oldValue None)) \<and>
   (attrs s ''open'' \<noteq> None \<longrightarrow>
      is_closed (alert_removeAttribute s ''open'') \<and>
      \<not> open_f (alert_removeAttribute s ''open'') \<and>
      attrs (alert_removeAttribute s ''open'') ''open'' = Some ''false'')"
  by (auto simp add: is_closed_def callback_open removeAttribute_open)

theorem removing_open_attribute_closes_witness:
  "(let s = FrmwrkAlert_constructor\<lparr>attrs := [''open'' \<mapsto> ''true'']\<rparr>
    in attrs s ''open'' \<noteq> None \<and> open_f s \<and> Some ''true'' \<noteq> (None :: string option) \<and>
       is_closed (FrmwrkAlert_attributeChangedCallback s ''open'' (Some ''true'') None) \<and>
       \<not> open_f (alert_removeAttribute s ''open'') \<and>
       attrs (alert_removeAttribute s ''open'') ''open'' = Some ''false'')"
proof -
  let ?s = "FrmwrkAlert_constructor\<lparr>attrs := [''open'' \<mapsto> ''true'']\<rparr>"
  have h: "attrs ?s ''open'' \<noteq> None" "open_f ?s"
    by (simp_all add: constructor_state)
  show ?thesis
    using removing_open_attribute_closes [of "Some ''true''" ?s] h
    by (simp add: Let_def)
qed

section \<open>The theme toggle\<close>

lemma toggleTheme_page:
  "snd (FrmwrkThemeToggle__toggleTheme (t, p)) =
     (if dark_flag p
      then p\<lparr>html_class := classList_remove (html_class p) ''theme-dark'',
             localStorage := (localStorage p)(''theme'' \<mapsto> ''light'')\<rparr>
      else p\<lparr>html_class := classList_add (html_class p) ''theme-dark'',
             localStorage := (localStorage p)(''theme'' \<mapsto> ''dark'')\<rparr>)"
  by (simp add: FrmwrkThemeToggle__toggleTheme_def dark_flag_def Let_def)

lemma toggleTheme_toggle:
  "fst (FrmwrkThemeToggle__toggleTheme (t, p)) =
     t\<lparr>t_dispatched := t_dispatched t @
          [theme_changed_event (if dark_flag p then ''light'' else ''dark'')]\<rparr>"
  by (simp add: FrmwrkThemeToggle__toggleTheme_def dark_flag_def Let_def
        FrmwrkThemeToggle__updateIcon_def theme_changed_event_def)

lemma toggleTheme_flag:
  "dark_flag (snd (FrmwrkThemeToggle__toggleTheme (t, p))) = (\<not> dark_flag p)"
  by (simp add: toggleTheme_page)
     (simp add: dark_flag_def contains_add contains_remove valid_theme_dark)

lemma toggleTheme_storage:
  "localStorage (snd (FrmwrkThemeToggle__toggleTheme (t, p))) =
     (localStorage p)(''theme'' \<mapsto> (if dark_flag p then ''light'' else ''dark''))"
  by (simp add: toggleTheme_page)

lemma toggleTheme_mirrors: "theme_mirrors_flag (snd (FrmwrkThemeToggle__toggleTheme (t, p)))"
  by (simp add: theme_mirrors_flag_def toggleTheme_flag toggleTheme_storage)

lemma two_toggles_flag:
  "dark_flag (snd (FrmwrkThemeToggle__toggleTheme (FrmwrkThemeToggle__toggleTheme (t, p)))) =
   dark_flag p"
proof -
  obtain t1 p1 where w1: "FrmwrkThemeToggle__toggleTheme (t, p) = (t1, p1)"
    by (cases "FrmwrkThemeToggle__toggleTheme (t, p)")
  then have "dark_flag p1 = (\<not> dark_flag p)"
    using toggleTheme_flag [of t p] by simp
  then show ?thesis
    by (simp add: w1 toggleTheme_flag)
qed

lemma two_toggles_storage:
  "localStorage (snd (FrmwrkThemeToggle__toggleTheme (FrmwrkThemeToggle__toggleTheme (t, p)))) =
   (localStorage p)(''theme'' \<mapsto> (if dark_flag p then ''dark'' else ''light''))"
proof -
  obtain t1 p1 where w1: "FrmwrkThemeToggle__toggleTheme (t, p) = (t1, p1)"
    by (cases "FrmwrkThemeToggle__toggleTheme (t, p)")
  then have "dark_flag p1 = (\<not> dark_flag p)"
    and "localStorage p1 =
         (localStorage p)(''theme'' \<mapsto> (if dark_flag p then ''light'' else ''dark''))"
    using toggleTheme_flag [of t p] toggleTheme_storage [of t p] by simp_all
  then show ?thesis
    by (simp add: w1 toggleTheme_storage)
qed

lemma empty_page_is_light: "\<not> dark_flag \<lparr>html_class = [], localStorage = m\<rparr>"
  by (simp add: dark_flag_def classList_contains_def ordered_set_parser_def)

text \<open>
  Claim C6 (two toggles return the document flag and the persisted value to their
  original state, for every initial flag and every initial storage), at a light page
  with nothing stored: after two toggles the page is light again, but the storage holds
  \<^verbatim>\<open>"light"\<close> under the theme key, where it held nothing.
\<close>

theorem two_toggles_overwrite_absent_preference:
  "(let p0 = \<lparr>html_class = [], localStorage = Map.empty\<rparr>;
        w2 = FrmwrkThemeToggle__toggleTheme
               (FrmwrkThemeToggle__toggleTheme (FrmwrkThemeToggle_constructor, p0))
    in \<not> dark_flag p0 \<and> localStorage p0 ''theme'' = None \<and>
       \<not> dark_flag (snd w2) \<and> localStorage (snd w2) ''theme'' = Some ''light'')"
  by (simp add: Let_def two_toggles_flag two_toggles_storage empty_page_is_light)

text \<open>
  Claim C6, amended. For every initial page, two toggles (two runs of
  \<^verbatim>\<open>_toggleTheme\<close>, which is what two clicks on a toggle attached once are) return the
  document-level dark flag to its original state and leave every other storage key as it
  was; the value stored under the theme key is then the name of that state
  (\<^verbatim>\<open>"dark"\<close> if the flag is set, \<^verbatim>\<open>"light"\<close> if not). So the persisted value
  returns to its original exactly when it mirrored the flag to begin with.
\<close>

theorem two_toggles_restore_flag:
  "(let w2 = FrmwrkThemeToggle__toggleTheme (FrmwrkThemeToggle__toggleTheme (t, p));
        p2 = snd w2
    in dark_flag p2 = dark_flag p \<and>
       localStorage p2 ''theme'' = Some (if dark_flag p then ''dark'' else ''light'') \<and>
       (localStorage p2)(''theme'' := None) = (localStorage p)(''theme'' := None) \<and>
       (localStorage p2 ''theme'' = localStorage p ''theme'') = theme_mirrors_flag p)"
  by (auto simp add: Let_def two_toggles_flag two_toggles_storage theme_mirrors_flag_def)

lemma auto_initialize_absent:
  "localStorage p ''theme'' = None \<Longrightarrow> auto_initialize p = p"
  by (simp add: auto_initialize_def)

lemma connectedCallback_absent:
  "localStorage p ''theme'' = None \<Longrightarrow>
   FrmwrkThemeToggle_connectedCallback (t, p) =
     (t\<lparr>button_listeners := Suc (button_listeners t)\<rparr>, p)"
  by (simp add: FrmwrkThemeToggle_connectedCallback_def FrmwrkThemeToggle__loadSavedTheme_def
        FrmwrkThemeToggle__updateIcon_def)

lemma click_once_connected:
  "button_listeners t = Suc 0 \<Longrightarrow>
   click_toggle_button (t, p) = FrmwrkThemeToggle__toggleTheme (t, p)"
  by (simp add: click_toggle_button_def)

lemma dark_markup_is_dark: "dark_flag \<lparr>html_class = ''theme-dark'', localStorage = m\<rparr>"
  by (simp add: dark_flag_def classList_contains_def ordered_set_parser_def
        is_ascii_whitespace_def)

text \<open>
  Claim C7 (with no persisted preference a newly attached toggle starts light, and one
  activation sets the dark flag, stores \<^verbatim>\<open>"dark"\<close> and announces \<^verbatim>\<open>{theme: "dark"}\<close>), at
  a page whose markup carries \<^verbatim>\<open>class="theme-dark"\<close> and whose storage is empty: neither
  the script's start-up function nor \<^verbatim>\<open>_loadSavedTheme\<close> clears the flag, so the toggle
  starts dark, and one activation clears the flag, stores \<^verbatim>\<open>"light"\<close> and dispatches
  \<^verbatim>\<open>theme-changed\<close> with \<^verbatim>\<open>{theme: "light"}\<close>.
\<close>

theorem first_activation_on_dark_markup:
  "(let p = \<lparr>html_class = ''theme-dark'', localStorage = Map.empty\<rparr>;
        w1 = FrmwrkThemeToggle_connectedCallback
               (FrmwrkThemeToggle_constructor, auto_initialize p);
        w2 = click_toggle_button w1
    in localStorage p ''theme'' = None \<and>
       dark_flag (snd w1) \<and>
       \<not> dark_flag (snd w2) \<and>
       localStorage (snd w2) ''theme'' = Some ''light'' \<and>
       t_dispatched (fst w2) = [theme_changed_event ''light''])"
proof -
  let ?p = "\<lparr>html_class = ''theme-dark'', localStorage = Map.empty\<rparr>"
  let ?t1 = "FrmwrkThemeToggle_constructor\<lparr>button_listeners := Suc 0\<rparr>"
  have w1: "FrmwrkThemeToggle_connectedCallback
              (FrmwrkThemeToggle_constructor, auto_initialize ?p) = (?t1, ?p)"
    by (simp add: auto_initialize_absent connectedCallback_absent
          FrmwrkThemeToggle_constructor_def)
  have w2: "click_toggle_button (?t1, ?p) = FrmwrkThemeToggle__toggleTheme (?t1, ?p)"
    by (rule click_once_connected) simp
  show ?thesis
    using dark_markup_is_dark [of Map.empty]
    by (simp add: Let_def w1 w2 toggleTheme_flag toggleTheme_storage toggleTheme_toggle)
       (simp add: FrmwrkThemeToggle_constructor_def)
qed

text \<open>
  Claim C7, amended. On a page whose document element does not carry the dark flag and
  whose storage holds no theme, the script's start-up function and the first attachment
  of a new toggle leave the page light and dispatch nothing. One activation of the toggle
  then sets the document-level dark flag, stores \<^verbatim>\<open>"dark"\<close> under the theme key, and
  dispatches exactly one \<^verbatim>\<open>theme-changed\<close> event with the detail
  \<^verbatim>\<open>{theme: "dark"}\<close>, bubbling and composed.
\<close>

theorem first_activation_sets_dark:
  assumes "\<not> dark_flag p" and "localStorage p ''theme'' = None"
  shows "(let w1 = FrmwrkThemeToggle_connectedCallback
                     (FrmwrkThemeToggle_constructor, auto_initialize p);
              w2 = click_toggle_button w1
          in \<not> dark_flag (snd w1) \<and> t_dispatched (fst w1) = [] \<and>
             dark_flag (snd w2) \<and>
             localStorage (snd w2) ''theme'' = Some ''dark'' \<and>
             t_dispatched (fst w2) = [theme_changed_event ''dark''])"
proof -
  let ?t1 = "FrmwrkThemeToggle_constructor\<lparr>button_listeners := Suc 0\<rparr>"
  have w1: "FrmwrkThemeToggle_connectedCallback
              (FrmwrkThemeToggle_constructor, auto_initialize p) = (?t1, p)"
    using assms(2)
    by (simp add: auto_initialize_absent connectedCallback_absent
          FrmwrkThemeToggle_constructor_def)
  have w2: "click_toggle_button (?t1, p) = FrmwrkThemeToggle__toggleTheme (?t1, p)"
    by (rule click_once_connected) simp
  show ?thesis
    using assms(1)
    by (simp add: Let_def w1 w2 toggleTheme_flag toggleTheme_storage toggleTheme_toggle)
       (simp add: FrmwrkThemeToggle_constructor_def)
qed

theorem first_activation_sets_dark_witness:
  "(let p = \<lparr>html_class = [], localStorage = Map.empty\<rparr>;
        w1 = FrmwrkThemeToggle_connectedCallback
               (FrmwrkThemeToggle_constructor, auto_initialize p);
        w2 = click_toggle_button w1
    in \<not> dark_flag p \<and> localStorage p ''theme'' = None \<and>
       \<not> dark_flag (snd w1) \<and> dark_flag (snd w2) \<and>
       localStorage (snd w2) ''theme'' = Some ''dark'' \<and>
       t_dispatched (fst w2) =
         [\<lparr>ev_type = ''theme-changed'', detail = [(''theme'', ''dark'')],
           bubbles = True, composed = True\<rparr>])"
proof -
  let ?p = "\<lparr>html_class = [], localStorage = Map.empty\<rparr>"
  have h: "\<not> dark_flag ?p" "localStorage ?p ''theme'' = None"
    by (simp_all add: empty_page_is_light)
  show ?thesis
    using first_activation_sets_dark [OF h] h
    by (simp add: Let_def theme_changed_event_def)
qed

lemma auto_initialize_dark:
  "localStorage p ''theme'' = Some ''dark'' \<Longrightarrow>
   dark_flag (auto_initialize p) \<and> localStorage (auto_initialize p) = localStorage p"
  by (simp add: auto_initialize_def dark_flag_def contains_add valid_theme_dark)

lemma loadSavedTheme_dark:
  "localStorage p ''theme'' = Some ''dark'' \<Longrightarrow>
   dark_flag (snd (FrmwrkThemeToggle__loadSavedTheme (t, p))) \<and>
   localStorage (snd (FrmwrkThemeToggle__loadSavedTheme (t, p))) = localStorage p"
  by (simp add: FrmwrkThemeToggle__loadSavedTheme_def dark_flag_def contains_add
        valid_theme_dark)

text \<open>
  Claim C8. After every run of \<^verbatim>\<open>_toggleTheme\<close>, from any page, the value stored under
  the theme key mirrors the document flag: it is \<^verbatim>\<open>"light"\<close> or \<^verbatim>\<open>"dark"\<close>, and it is
  \<^verbatim>\<open>"dark"\<close> exactly when the dark flag is set. When the storage holds \<^verbatim>\<open>"dark"\<close>, the
  script's start-up function, and likewise \<^verbatim>\<open>_loadSavedTheme\<close> of a toggle being
  attached, set the flag, so the stored value mirrors the flag after them too.
\<close>

theorem stored_theme_mirrors_flag:
  "theme_mirrors_flag (snd (FrmwrkThemeToggle__toggleTheme (t, p))) \<and>
   localStorage (snd (FrmwrkThemeToggle__toggleTheme (t, p))) ''theme''
     \<in> {Some ''light'', Some ''dark''} \<and>
   (localStorage (snd (FrmwrkThemeToggle__toggleTheme (t, p))) ''theme'' = Some ''dark'')
     = dark_flag (snd (FrmwrkThemeToggle__toggleTheme (t, p))) \<and>
   (localStorage p ''theme'' = Some ''dark'' \<longrightarrow>
      theme_mirrors_flag (auto_initialize p) \<and>
      theme_mirrors_flag (snd (FrmwrkThemeToggle__loadSavedTheme (t, p))))"
  using auto_initialize_dark [of p] loadSavedTheme_dark [of p t]
  by (auto simp add: toggleTheme_mirrors toggleTheme_flag toggleTheme_storage
        theme_mirrors_flag_def)

theorem stored_theme_mirrors_flag_witness:
  "(let p = \<lparr>html_class = [], localStorage = [''theme'' \<mapsto> ''dark'']\<rparr>;
        t = FrmwrkThemeToggle_constructor
    in localStorage p ''theme'' = Some ''dark'' \<and>
       \<not> theme_mirrors_flag p \<and>
       theme_mirrors_flag (auto_initialize p) \<and>
       theme_mirrors_flag (snd (FrmwrkThemeToggle__loadSavedTheme (t, p))) \<and>
       theme_mirrors_flag (snd (FrmwrkThemeToggle__toggleTheme (t, p))))"
proof -
  let ?p = "\<lparr>html_class = [], localStorage = [''theme'' \<mapsto> ''dark'']\<rparr>"
  have h: "localStorage ?p ''theme'' = Some ''dark''"
    by simp
  have n: "\<not> theme_mirrors_flag ?p"
    by (simp add: theme_mirrors_flag_def empty_page_is_light)
  show ?thesis
    using stored_theme_mirrors_flag [of FrmwrkThemeToggle_constructor ?p] h n
    by (simp add: Let_def)
qed

end
